theory Spec2Isabelle
  imports Main
begin

section \<open>Data model\<close>

text \<open>
  A \<open>Session\<close> of the timetable (\<open>src/types\<close>): identity, trainer, group (a real group or
  a fusion id), module, day, slot and room. The field \<open>id\<close> of the source is \<open>id_s\<close> here,
  since \<open>id\<close> is the identity function of HOL. Strings are lists of 8-bit characters;
  \<open>creneau\<close> is a JSON number, which the backend sends as an integer.
\<close>

record session =
  id_s :: string
  formateur :: string
  groupe :: string
  module :: string
  jour :: string
  creneau :: int
  salle :: string

text \<open>A \<open>Cell\<close> is a coordinate \<open>{day, slot}\<close> of the grid.\<close>

record cell =
  day :: string
  slot :: int

section \<open>Pure list operations of \<open>useSchedule.ts\<close>\<close>

text \<open>
  \<^verbatim>\<open>sessions.map((s) => s.id === sessionId
       ? { ...s, jour: toJour, creneau: toCreneau, salle: toSalle } : s)\<close>
  The spread keeps every field of \<open>s\<close> that is not overwritten, so the function is stated
  over any extension of the record.
\<close>

definition applyMoveLocal ::
  "'a session_scheme list \<Rightarrow> string \<Rightarrow> string \<Rightarrow> int \<Rightarrow> string \<Rightarrow> 'a session_scheme list" where
  "applyMoveLocal sessions sessionId toJour toCreneau toSalle =
     map (\<lambda>s. if id_s s = sessionId
               then s\<lparr>jour := toJour, creneau := toCreneau, salle := toSalle\<rparr>
               else s) sessions"

text \<open>\<^verbatim>\<open>sessions.filter((s) => s.id !== sessionId)\<close>\<close>

definition applyDeleteLocal :: "'a session_scheme list \<Rightarrow> string \<Rightarrow> 'a session_scheme list" where
  "applyDeleteLocal sessions sessionId = filter (\<lambda>s. id_s s \<noteq> sessionId) sessions"

section \<open>Group fusions and virtual rooms (\<open>Index.tsx\<close>, \<open>VirtualTimetable.tsx\<close>)\<close>

text \<open>
  \<open>String.prototype.toUpperCase\<close> on the 8-bit characters of the model: the letters
  \<open>a\<close> to \<open>z\<close> are mapped to \<open>A\<close> to \<open>Z\<close>, every other character is kept.
\<close>

definition toUpperCase :: "string \<Rightarrow> string" where
  "toUpperCase str =
     map (\<lambda>c. let n = (of_char c :: nat) in
                if 97 \<le> n \<and> n \<le> 122 then char_of (n - 32) else c) str"

text \<open>An \<open>OnlineFusion\<close> of the catalog: \<open>{id, groupes}\<close>.\<close>

record OnlineFusion =
  fusion_id :: string
  groupes :: "string list"

text \<open>
  \<^verbatim>\<open>const m = new Map(); onlineFusions.forEach((f) => m.set(f.id, f.groupes ?? []))\<close>
  A later fusion with the same id replaces an earlier one.
\<close>

definition fusionMap :: "OnlineFusion list \<Rightarrow> (string \<rightharpoonup> string list)" where
  "fusionMap onlineFusions =
     foldl (\<lambda>m f. m(fusion_id f \<mapsto> groupes f)) Map.empty onlineFusions"

text \<open>
  \<^verbatim>\<open>const expanded = fusionMap.get(groupeId);
  if (expanded && expanded.length) return expanded;
  return [groupeId];\<close>
\<close>

definition expandGroupIds :: "(string \<rightharpoonup> string list) \<Rightarrow> string \<Rightarrow> string list" where
  "expandGroupIds fm groupeId =
     (case fm groupeId of
        Some expanded \<Rightarrow> if expanded \<noteq> [] then expanded else [groupeId]
      | None \<Rightarrow> [groupeId])"

text \<open>
  An entry of \<open>cfg.salles\<close>: the page accepts a bare room id or an object \<open>{id, type}\<close>.
\<close>

datatype Salle = SalleString string | SalleObject string "string option"

text \<open>
  \<^verbatim>\<open>const found = salles.find((s) => (typeof s === "string" ? s === roomId : s?.id === roomId));
  const type = typeof found === "string" ? null : found?.type;
  return (type ?? "").toUpperCase() === "VIRTUEL";\<close>
\<close>

definition isVirtualRoom :: "Salle list \<Rightarrow> string \<Rightarrow> bool" where
  "isVirtualRoom salles roomId =
     (let found = List.find (\<lambda>s. case s of SalleString n \<Rightarrow> n = roomId
                                          | SalleObject i t \<Rightarrow> i = roomId) salles;
          type = (case found of Some (SalleObject i t) \<Rightarrow> t | _ \<Rightarrow> None)
      in toUpperCase (case type of Some t \<Rightarrow> t | None \<Rightarrow> []) = ''VIRTUEL'')"

text \<open>\<^verbatim>\<open>(session?.salle ?? "").toUpperCase() === TEAMS_ROOM_ID\<close> (\<open>timetableApi.ts\<close>)\<close>

definition TEAMS_ROOM_ID :: string where
  "TEAMS_ROOM_ID = ''TEAMS''"

definition isOnlineSession :: "session \<Rightarrow> bool" where
  "isOnlineSession session \<longleftrightarrow> toUpperCase (salle session) = TEAMS_ROOM_ID"

section \<open>Conflict check of the schedule hook\<close>

text \<open>
  The options of \<open>useSchedule\<close>: both callbacks are optional; the hook falls back to
  \<open>(g) => [g]\<close> and \<open>() => false\<close>.
\<close>

record UseScheduleOptions =
  opt_expandGroupIds :: "(string \<Rightarrow> string list) option"
  opt_isVirtualRoom :: "(string \<Rightarrow> bool) option"

definition expand_of :: "UseScheduleOptions \<Rightarrow> string \<Rightarrow> string list" where
  "expand_of opts = (case opt_expandGroupIds opts of Some f \<Rightarrow> f | None \<Rightarrow> (\<lambda>g. [g]))"

definition isVirtual_of :: "UseScheduleOptions \<Rightarrow> string \<Rightarrow> bool" where
  "isVirtual_of opts = (case opt_isVirtualRoom opts of Some f \<Rightarrow> f | None \<Rightarrow> (\<lambda>r. False))"

text \<open>
  \<open>hasConflict\<close> of \<open>useSchedule.ts\<close>: \<open>sessions.find(...) || null\<close>, with the callback
  written in the order of the source.
\<close>

definition hasConflict ::
  "UseScheduleOptions \<Rightarrow> session list \<Rightarrow> session \<Rightarrow> cell \<Rightarrow> session option" where
  "hasConflict opts sessions session targetCell =
     (let expand = expand_of opts;
          isVirtual = isVirtual_of opts;
          groupsA = expand (groupe session)
      in List.find (\<lambda>s.
           if id_s s = id_s session then False
           else if jour s \<noteq> day targetCell \<or> creneau s \<noteq> slot targetCell then False
           else
             let sameRoom = (salle s = salle session \<and> \<not> isVirtual (salle session)
                              \<and> \<not> isVirtual (salle s));
                 sameTeacher = (formateur s = formateur session);
                 groupsB = expand (groupe s);
                 sameGroup = list_ex (\<lambda>g. g \<in> set groupsB) groupsA
             in sameRoom \<or> sameTeacher \<or> sameGroup) sessions)"

text \<open>
  \<open>hasConflict\<close> of \<open>VirtualTimetable.tsx\<close>, over the official sessions, with the page's
  own \<open>expandGroupIds\<close> and \<open>isVirtualRoom\<close>. The ids are compared after \<open>String(...)\<close>,
  which is the identity on the string ids of the model.
\<close>

definition VirtualTimetable_hasConflict ::
  "Salle list \<Rightarrow> OnlineFusion list \<Rightarrow> session list \<Rightarrow> session \<Rightarrow> cell \<Rightarrow> session option" where
  "VirtualTimetable_hasConflict salles onlineFusions officialSessions session targetCell =
     (let groupsA = expandGroupIds (fusionMap onlineFusions) (groupe session);
          isVirt = (\<lambda>i. isVirtualRoom salles i)
      in List.find (\<lambda>s.
           if id_s s = id_s session then False
           else if jour s \<noteq> day targetCell \<or> creneau s \<noteq> slot targetCell then False
           else
             let sameRoom = (salle s = salle session \<and> \<not> isVirt (salle session)
                              \<and> \<not> isVirt (salle s));
                 sameTeacher = (formateur s = formateur session);
                 groupsB = expandGroupIds (fusionMap onlineFusions) (groupe s);
                 sameGroup = list_ex (\<lambda>g. g \<in> set groupsB) groupsA
             in sameRoom \<or> sameTeacher \<or> sameGroup) officialSessions)"

section \<open>Commands, replies and effects\<close>

datatype TimetableScope = Official | Draft

record MovePayload =
  sessionId :: string
  toJour :: string
  toCreneau :: int
  toSalle :: string

text \<open>The \<open>type\<close> of a command together with its \<open>payload\<close> (\<open>commandsApi.ts\<close>).\<close>

datatype CommandType = MOVE_SESSION MovePayload | DELETE_SESSION string

record TimetableCommand =
  commandId :: string
  expectedVersion :: int
  command :: CommandType

record CommandSuccess =
  res_version :: int
  res_sessions :: "session list"
  res_warnings :: "string list"

text \<open>
  The body that \<open>httpOk\<close> attaches to the error it throws on a non-2xx response is whatever
  JSON the server sent: every field of \<open>CommandError\<close> may be missing. \<open>body_ok\<close> is
  \<open>Some False\<close> exactly when \<open>body.ok === false\<close>.
\<close>

record ErrorBody =
  body_ok :: "bool option"
  body_code :: "string option"
  body_message :: "string option"
  body_version :: "int option"
  body_serverVersion :: "int option"

text \<open>The thrown error \<open>e\<close>: \<open>e?.message\<close> and \<open>e?.body\<close> (absent or \<open>null\<close> is \<open>None\<close>).\<close>

record ThrownError =
  err_message :: "string option"
  err_body :: "ErrorBody option"

datatype CommandReply = Resolved CommandSuccess | Rejected ThrownError

text \<open>
  The reply of \<open>getTimetable()\<close>: \<open>tt.version\<close> when it is a number, and \<open>tt.sessions\<close>. The
  sessions of a reply carry their \<open>id\<close>; the aliasing \<open>s.id ?? s.sessionId\<close> of
  \<open>normalizeSessions\<close> is the identity on them.
\<close>

datatype TimetableReply =
    TimetableResolved "int option" "session list option"
  | TimetableRejected ThrownError

text \<open>The reply of \<open>getAvailableRooms\<close>: \<open>api.availableRooms\<close>, which may be missing.\<close>

datatype RoomsReply = RoomsResolved "string list option" | RoomsRejected ThrownError

text \<open>
  What the backend and the runtime answer during one run of a handler. Each handler awaits
  each call at most once; \<open>uuid\<close> is the value of \<open>crypto.randomUUID()\<close>.
\<close>

record backend =
  uuid :: string
  command_reply :: CommandReply
  timetable_reply :: TimetableReply
  rooms_reply :: RoomsReply

text \<open>
  The toasts of the two grids, by kind. In the source each is a title, a description and a
  variant:
  \<^item> \<open>TeacherBusy\<close>: "Conflit de deplacement" / "Le formateur est deja occupe sur ce creneau."
  \<^item> \<open>GroupBusy\<close>: "Conflit de deplacement" / "Le groupe est deja occupe sur ce creneau."
  \<^item> \<open>SessionMoved s day slot room\<close>: "Seance deplacee", with the module and group of \<open>s\<close>,
    the day, the label of the slot and the room (\<open>None\<close> is "(En ligne)")
  \<^item> \<open>MoveRefused\<close>: "Erreur de deplacement" / "Action refusee par le serveur (contraintes / conflits)."
  \<^item> \<open>NoRoomAvailable\<close>: "Aucune salle disponible sur ce creneau."
  \<^item> \<open>RoomOccupied\<close>: "Salle occupee" / "Choisissez une salle libre pour ce creneau."
  \<^item> \<open>RoomsError m\<close>: "Erreur" / \<open>m\<close>
  \<^item> \<open>BackendRefused\<close>: "Deplacement refuse" / "Le backend a refuse ce deplacement."
  (accents of the source are dropped in this list).
\<close>

datatype toast =
    TeacherBusy
  | GroupBusy
  | SessionMoved session string int "string option"
  | MoveRefused
  | NoRoomAvailable
  | RoomOccupied
  | RoomsError string
  | BackendRefused

text \<open>
  Everything a handler does besides returning: state setters of the hook, network calls,
  toasts and the opening of the room selector, in the order in which they happen.
\<close>

datatype event =
    SetSessions "session list"
  | SetVersion int
  | SetLoading bool
  | SetError "string option"
  | GetTimetable
  | SendTimetableCommand TimetableCommand TimetableScope
  | GetAvailableRooms string int TimetableScope
  | Toast toast
  | OpenRoomSelector session cell "string list" "session option"

text \<open>The state of \<open>useSchedule\<close> (the filters play no part in the mutations).\<close>

record hook_state =
  sessions :: "session list"
  version :: int
  loading :: bool
  error :: "string option"

fun apply_event :: "event \<Rightarrow> hook_state \<Rightarrow> hook_state" where
  "apply_event (SetSessions ss) st = st\<lparr>sessions := ss\<rparr>"
| "apply_event (SetVersion v) st = st\<lparr>version := v\<rparr>"
| "apply_event (SetLoading b) st = st\<lparr>loading := b\<rparr>"
| "apply_event (SetError e) st = st\<lparr>error := e\<rparr>"
| "apply_event GetTimetable st = st"
| "apply_event (SendTimetableCommand c sc) st = st"
| "apply_event (GetAvailableRooms d n sc) st = st"
| "apply_event (Toast t) st = st"
| "apply_event (OpenRoomSelector s c rs k) st = st"

definition run :: "event list \<Rightarrow> hook_state \<Rightarrow> hook_state" where
  "run evs st = fold apply_event evs st"

fun is_command :: "event \<Rightarrow> bool" where
  "is_command (SendTimetableCommand c sc) = True"
| "is_command e = False"

fun is_rooms_query :: "event \<Rightarrow> bool" where
  "is_rooms_query (GetAvailableRooms d n sc) = True"
| "is_rooms_query e = False"

fun is_room_prompt :: "event \<Rightarrow> bool" where
  "is_room_prompt (OpenRoomSelector s c rs k) = True"
| "is_room_prompt e = False"

section \<open>The schedule hook: optimistic mutation and reconciliation\<close>

text \<open>\<open>a ?? b\<close> on an optional string, and \<open>a || b\<close> (the empty string is falsy).\<close>

definition nullish :: "'a option \<Rightarrow> 'a \<Rightarrow> 'a" where
  "nullish a b = (case a of Some x \<Rightarrow> x | None \<Rightarrow> b)"

definition or_else :: "string option \<Rightarrow> string \<Rightarrow> string" where
  "or_else a b = (case a of Some x \<Rightarrow> if x = [] then b else x | None \<Rightarrow> b)"

text \<open>
  \<open>fetchData\<close>: loading on, error cleared, \<open>GET /api/timetable\<close>; on success the sessions
  are replaced, and the version when the reply has one; on failure the error is set; in
  both cases loading goes off.
\<close>

definition fetchData :: "backend \<Rightarrow> event list" where
  "fetchData env =
     [SetLoading True, SetError None, GetTimetable] @
     (case timetable_reply env of
        TimetableResolved v ss \<Rightarrow>
          [SetSessions (nullish ss [])] @ (case v of Some n \<Rightarrow> [SetVersion n] | None \<Rightarrow> [])
      | TimetableRejected e \<Rightarrow>
          [SetError (Some (nullish (err_message e) ''Failed to fetch schedule data''))]) @
     [SetLoading False]"

datatype ActionResult = ActionOk | ActionRefused string

text \<open>
  \<open>moveSessionDnD\<close>. The snapshot \<open>prevSessions\<close>, \<open>prevVersion\<close> is the state the callback
  closed over. The fallback messages are "Action refusee" and "Erreur reseau" with their
  accents (\<open>0xE9\<close> is e acute).
\<close>

definition moveSessionDnD :: "hook_state \<Rightarrow> backend \<Rightarrow> MovePayload \<Rightarrow> ActionResult \<times> event list" where
  "moveSessionDnD st env args =
     (let prevSessions = sessions st;
          prevVersion = version st;
          optimistic =
            [SetSessions (applyMoveLocal prevSessions (sessionId args) (toJour args)
                            (toCreneau args) (toSalle args)),
             SendTimetableCommand
               \<lparr>commandId = uuid env, expectedVersion = prevVersion,
                command = MOVE_SESSION args\<rparr> Official]
      in case command_reply env of
           Resolved res \<Rightarrow>
             (ActionOk, optimistic @ [SetSessions (res_sessions res), SetVersion (res_version res)])
         | Rejected e \<Rightarrow>
             (case err_body e of
                Some body \<Rightarrow>
                  if body_ok body = Some False then
                    (ActionRefused (or_else (body_message body) (''Action refus'' @ [CHR 0xE9] @ ''e'')),
                     optimistic @ [SetSessions prevSessions] @
                     (if body_code body = Some ''VERSION_MISMATCH'' then fetchData env else []))
                  else
                    (ActionRefused (nullish (err_message e) (''Erreur r'' @ [CHR 0xE9] @ ''seau'')),
                     optimistic @ [SetSessions prevSessions])
              | None \<Rightarrow>
                  (ActionRefused (nullish (err_message e) (''Erreur r'' @ [CHR 0xE9] @ ''seau'')),
                   optimistic @ [SetSessions prevSessions])))"

text \<open>
  \<open>deleteSession\<close>. Here the code of the body is read without looking at \<open>body.ok\<close>, and the
  message is \<open>e?.body?.message || e?.message || "Suppression refusee."\<close>.
\<close>

definition deleteSession :: "hook_state \<Rightarrow> backend \<Rightarrow> string \<Rightarrow> ActionResult \<times> event list" where
  "deleteSession st env sid =
     (let prevSessions = sessions st;
          prevVersion = version st;
          optimistic =
            [SetSessions (applyDeleteLocal prevSessions sid),
             SendTimetableCommand
               \<lparr>commandId = uuid env, expectedVersion = prevVersion,
                command = DELETE_SESSION sid\<rparr> Official]
      in case command_reply env of
           Resolved res \<Rightarrow>
             (ActionOk, optimistic @ [SetSessions (res_sessions res), SetVersion (res_version res)])
         | Rejected e \<Rightarrow>
             (let msg = or_else (case err_body e of Some body \<Rightarrow> body_message body | None \<Rightarrow> None)
                          (or_else (err_message e) (''Suppression refus'' @ [CHR 0xE9] @ ''e.''))
              in (ActionRefused msg,
                  optimistic @ [SetSessions prevSessions] @
                  (if (case err_body e of Some body \<Rightarrow> body_code body | None \<Rightarrow> None)
                        = Some ''VERSION_MISMATCH''
                   then fetchData env else []))))"

text \<open>
  \<open>Partial<Session>\<close>: each field given or not. \<open>updateSession\<close> turns an update that
  gives day, slot and room into a move command; any other update is merged locally.
\<close>

record SessionUpdates =
  up_id :: "string option"
  up_formateur :: "string option"
  up_groupe :: "string option"
  up_module :: "string option"
  up_jour :: "string option"
  up_creneau :: "int option"
  up_salle :: "string option"

definition merge_updates :: "session \<Rightarrow> SessionUpdates \<Rightarrow> session" where
  "merge_updates s u =
     \<lparr>id_s = nullish (up_id u) (id_s s),
      formateur = nullish (up_formateur u) (formateur s),
      groupe = nullish (up_groupe u) (groupe s),
      module = nullish (up_module u) (module s),
      jour = nullish (up_jour u) (jour s),
      creneau = nullish (up_creneau u) (creneau s),
      salle = nullish (up_salle u) (salle s)\<rparr>"

definition updateSession :: "hook_state \<Rightarrow> backend \<Rightarrow> string \<Rightarrow> SessionUpdates \<Rightarrow> bool \<times> event list" where
  "updateSession st env sid updates =
     (case (up_jour updates, up_creneau updates, up_salle updates) of
        (Some j, Some c, Some r) \<Rightarrow>
          (let (res, evs) = moveSessionDnD st env
                 \<lparr>sessionId = sid, toJour = j, toCreneau = c, toSalle = r\<rparr>
           in (res = ActionOk, evs))
      | _ \<Rightarrow>
          (True, [SetSessions (map (\<lambda>s. if id_s s = sid then merge_updates s updates else s)
                                   (sessions st))]))"

section \<open>The drop handlers of the two grids\<close>

text \<open>The object literal \<open>{ jour, creneau, salle }\<close> that both grids pass to \<open>updateSession\<close>.\<close>

definition move_updates :: "string \<Rightarrow> int \<Rightarrow> string \<Rightarrow> SessionUpdates" where
  "move_updates toDay toSlot room =
     \<lparr>up_id = None, up_formateur = None, up_groupe = None, up_module = None,
      up_jour = Some toDay, up_creneau = Some toSlot, up_salle = Some room\<rparr>"

text \<open>
  The props of \<open>ScheduleGrid\<close> that \<open>handleDrop\<close> reads. \<open>updateSession\<close> returns its
  boolean together with the effects it had.
\<close>

record ScheduleGridProps =
  p_hasConflict :: "session \<Rightarrow> cell \<Rightarrow> session option"
  p_updateSession :: "string \<Rightarrow> SessionUpdates \<Rightarrow> bool \<times> event list"
  p_isLoading :: bool
  p_readOnly :: bool

text \<open>
  \<open>handleDrop\<close> of \<open>ScheduleGrid.tsx\<close>, branch by branch: the three early returns, the
  precheck on the session that \<open>hasConflict\<close> returned (same trainer, or the same literal
  \<open>groupe\<close>), the online session, and the room resolution inside \<open>try\<close>.
\<close>

definition ScheduleGrid_handleDrop ::
  "ScheduleGridProps \<Rightarrow> backend \<Rightarrow> session \<Rightarrow> string \<Rightarrow> int \<Rightarrow> event list" where
  "ScheduleGrid_handleDrop props env session toDay toSlot =
     (if p_isLoading props then []
      else if p_readOnly props then []
      else if jour session = toDay \<and> creneau session = toSlot then []
      else
        let dest = \<lparr>day = toDay, slot = toSlot\<rparr>;
            conflict = p_hasConflict props session dest;
            sameTeacher = (case conflict of Some c \<Rightarrow> formateur c = formateur session
                                           | None \<Rightarrow> False);
            sameGroup = (case conflict of Some c \<Rightarrow> groupe c = groupe session
                                         | None \<Rightarrow> False)
        in
          if conflict \<noteq> None \<and> (sameTeacher \<or> sameGroup)
          then [Toast (if sameTeacher then TeacherBusy else GroupBusy)]
          else if isOnlineSession session then
            (let (success, evs) = p_updateSession props (id_s session)
                                    (move_updates toDay toSlot (salle session))
             in evs @ [Toast (if success then SessionMoved session toDay toSlot None
                              else MoveRefused)])
          else
            GetAvailableRooms toDay toSlot Official #
            (case rooms_reply env of
               RoomsRejected e \<Rightarrow>
                 [Toast (RoomsError (nullish (err_message e)
                           ''Erreur lors du chargement des salles disponibles.''))]
             | RoomsResolved api \<Rightarrow>
                 (let freeRooms = nullish api [] in
                  if freeRooms = [] then [Toast NoRoomAvailable]
                  else if salle session \<in> set freeRooms then
                    (let (success, evs) = p_updateSession props (id_s session)
                                            (move_updates toDay toSlot (salle session))
                     in evs @ [Toast (if success
                                      then SessionMoved session toDay toSlot (Some (salle session))
                                      else MoveRefused)])
                  else [OpenRoomSelector session dest freeRooms conflict, Toast RoomOccupied])))"

record VirtualScheduleGridProps =
  v_hasConflict :: "session \<Rightarrow> cell \<Rightarrow> session option"
  v_updateSession :: "string \<Rightarrow> SessionUpdates \<Rightarrow> bool \<times> event list"
  v_isLoading :: bool
  v_roomsScope :: TimetableScope

text \<open>
  \<open>handleDrop\<close> of \<open>VirtualScheduleGrid.tsx\<close>: an online session is not moved at all, there
  is no check of the cell the session is on, the direct move asks for a free room and for
  \<open>!conflict\<close>, and only a refused move is toasted.
\<close>

definition VirtualScheduleGrid_handleDrop ::
  "VirtualScheduleGridProps \<Rightarrow> backend \<Rightarrow> session \<Rightarrow> string \<Rightarrow> int \<Rightarrow> event list" where
  "VirtualScheduleGrid_handleDrop props env session toDay toSlot =
     (if v_isLoading props then []
      else if isOnlineSession session then []
      else
        let conflict = v_hasConflict props session \<lparr>day = toDay, slot = toSlot\<rparr>;
            sameTeacher = (case conflict of Some c \<Rightarrow> formateur c = formateur session
                                           | None \<Rightarrow> False);
            sameGroup = (case conflict of Some c \<Rightarrow> groupe c = groupe session
                                         | None \<Rightarrow> False)
        in
          if conflict \<noteq> None \<and> (sameTeacher \<or> sameGroup)
          then [Toast (if sameTeacher then TeacherBusy else GroupBusy)]
          else
            GetAvailableRooms toDay toSlot (v_roomsScope props) #
            (case rooms_reply env of
               RoomsRejected e \<Rightarrow>
                 [Toast (RoomsError (nullish (err_message e)
                           (''Erreur lors de la r'' @ [CHR 0xE9] @ ''cup'' @ [CHR 0xE9]
                            @ ''ration des salles'')))]
             | RoomsResolved api \<Rightarrow>
                 (let freeRooms = nullish api [] in
                  if freeRooms = [] then [Toast NoRoomAvailable]
                  else if salle session \<in> set freeRooms \<and> conflict = None then
                    (let (ok, evs) = v_updateSession props (id_s session)
                                       (move_updates toDay toSlot (salle session))
                     in evs @ (if \<not> ok then [Toast BackendRefused] else []))
                  else [OpenRoomSelector session \<lparr>day = toDay, slot = toSlot\<rparr> freeRooms
                          conflict])))"

text \<open>
  \<open>Index.tsx\<close> renders \<open>ScheduleGrid\<close> with the conflict check and \<open>updateSession\<close> of the
  hook, the hook's \<open>loading\<close>, and \<open>readOnly\<close> for a supervisor. The hook gets the page's
  \<open>expandGroupIds\<close> and \<open>isVirtualRoom\<close>.
\<close>

definition Index_options :: "Salle list \<Rightarrow> OnlineFusion list \<Rightarrow> UseScheduleOptions" where
  "Index_options salles onlineFusions =
     \<lparr>opt_expandGroupIds = Some (expandGroupIds (fusionMap onlineFusions)),
      opt_isVirtualRoom = Some (isVirtualRoom salles)\<rparr>"

definition Index_props ::
  "Salle list \<Rightarrow> OnlineFusion list \<Rightarrow> bool \<Rightarrow> hook_state \<Rightarrow> backend \<Rightarrow> ScheduleGridProps" where
  "Index_props salles onlineFusions readOnly st env =
     \<lparr>p_hasConflict = hasConflict (Index_options salles onlineFusions) (sessions st),
      p_updateSession = updateSession st env,
      p_isLoading = loading st,
      p_readOnly = readOnly\<rparr>"

section \<open>The virtual view built from change requests (\<open>VirtualTimetable.tsx\<close>)\<close>









datatype VirtualState = TO_DELETE | INSERTED | MOVED_AWAY | PROPOSED_DESTINATION

text \<open>A copy of a base session, with the two properties the function may set on it.\<close>

record vsession = session +
  virtualState :: "VirtualState option"
  virtualRequestId :: "string option"


text \<open>
  \<open>byId\<close> is filled by \<open>base.forEach((s) => byId.set(String(s.id), s))\<close>: of two sessions with
  one id the later one stays. The map holds the objects of \<open>base\<close> themselves, so setting a
  property through it changes the element of \<open>base\<close> at that position.
\<close>

fun byId_index :: "string \<Rightarrow> 'a session_scheme list \<Rightarrow> nat option" where
  "byId_index sid [] = None"
| "byId_index sid (x # xs) =
     (case byId_index sid xs of
        Some i \<Rightarrow> Some (Suc i)
      | None \<Rightarrow> if id_s x = sid then Some 0 else None)"

definition tag :: "VirtualState \<Rightarrow> string option \<Rightarrow> string \<Rightarrow> vsession list \<Rightarrow> vsession list" where
  "tag state rid sid base =
     (case byId_index sid base of
        Some i \<Rightarrow> base[i := (base ! i)\<lparr>virtualState := Some state, virtualRequestId := rid\<rparr>]
      | None \<Rightarrow> base)"




section \<open>Example data\<close>

text \<open>
  The session of the scenarios of the specification, a second session on another cell, a
  hook state holding both at version 3, and a move of \<open>S1\<close> to \<open>(mardi, 3)\<close> in its room.
\<close>

definition ex_S1 :: session where
  "ex_S1 = \<lparr>id_s = ''S1'', formateur = ''T1'', groupe = ''G1'', module = ''M1'',
            jour = ''lundi'', creneau = 1, salle = ''R1''\<rparr>"

definition ex_S2 :: session where
  "ex_S2 = \<lparr>id_s = ''S2'', formateur = ''T2'', groupe = ''G2'', module = ''M2'',
            jour = ''mardi'', creneau = 2, salle = ''R2''\<rparr>"

definition ex_state :: hook_state where
  "ex_state = \<lparr>sessions = [ex_S1, ex_S2], version = 3, loading = False, error = None\<rparr>"

definition ex_move :: MovePayload where
  "ex_move = \<lparr>sessionId = ''S1'', toJour = ''mardi'', toCreneau = 3, toSalle = ''R1''\<rparr>"

text \<open>
  A rejection \<open>{ok: false, code, message, version: 7, serverVersion: 7}\<close>, and a backend
  that rejects every command with it, answers \<open>GET /api/timetable\<close> with version 7 and the
  single session \<open>S2\<close>, and reports the rooms \<open>R1\<close> and \<open>R2\<close> free.
\<close>

definition ex_body :: "string \<Rightarrow> ErrorBody" where
  "ex_body code = \<lparr>body_ok = Some False, body_code = Some code, body_message = Some ''refused'',
                   body_version = Some 7, body_serverVersion = Some 7\<rparr>"

definition ex_error :: "string \<Rightarrow> ThrownError" where
  "ex_error code = \<lparr>err_message = Some ''refused'', err_body = Some (ex_body code)\<rparr>"

definition ex_rejecting :: "string \<Rightarrow> backend" where
  "ex_rejecting code =
     \<lparr>uuid = ''c-1'', command_reply = Rejected (ex_error code),
      timetable_reply = TimetableResolved (Some 7) (Some [ex_S2]),
      rooms_reply = RoomsResolved (Some [''R1'', ''R2''])\<rparr>"

text \<open>A backend that accepts the command and returns version 4 with the given sessions.\<close>

definition ex_accepting :: "session list \<Rightarrow> backend" where
  "ex_accepting ss =
     \<lparr>uuid = ''c-2'',
      command_reply = Resolved \<lparr>res_version = 4, res_sessions = ss, res_warnings = []\<rparr>,
      timetable_reply = TimetableResolved (Some 4) (Some ss),
      rooms_reply = RoomsResolved (Some [''R1'', ''R2''])\<rparr>"

text \<open>
  A catalog with one fusion and a configuration with two physical rooms and the virtual
  room; a session of group \<open>DEV101\<close> and an online session of the fusion, with another
  trainer, on \<open>(mardi, 2)\<close>; a session of other people in room \<open>R1\<close> on \<open>(mardi, 2)\<close>; an
  online session written \<open>Teams\<close>.
\<close>

definition ex_fusions :: "OnlineFusion list" where
  "ex_fusions = [\<lparr>fusion_id = ''DEV101_DEV102'', groupes = [''DEV101'', ''DEV102'']\<rparr>]"

definition ex_salles :: "Salle list" where
  "ex_salles = [SalleObject ''R1'' (Some ''PHYSIQUE''), SalleObject ''R2'' (Some ''PHYSIQUE''),
                SalleObject ''TEAMS'' (Some ''VIRTUEL'')]"

definition ex_D1 :: session where
  "ex_D1 = \<lparr>id_s = ''S1'', formateur = ''T1'', groupe = ''DEV101'', module = ''M1'',
            jour = ''lundi'', creneau = 1, salle = ''R1''\<rparr>"

definition ex_F :: session where
  "ex_F = \<lparr>id_s = ''S4'', formateur = ''T2'', groupe = ''DEV101_DEV102'', module = ''M2'',
           jour = ''mardi'', creneau = 2, salle = ''TEAMS''\<rparr>"

definition ex_S3 :: session where
  "ex_S3 = \<lparr>id_s = ''S3'', formateur = ''T3'', groupe = ''G3'', module = ''M3'',
            jour = ''mardi'', creneau = 2, salle = ''R1''\<rparr>"

definition ex_T :: session where
  "ex_T = \<lparr>id_s = ''S5'', formateur = ''T1'', groupe = ''G1'', module = ''M1'',
           jour = ''lundi'', creneau = 1, salle = ''Teams''\<rparr>"

definition ex_holding :: "session list \<Rightarrow> hook_state" where
  "ex_holding ss = \<lparr>sessions = ss, version = 3, loading = False, error = None\<rparr>"

text \<open>
  The virtual grid over the same sessions, with the conflict check of its page; its
  \<open>updateSession\<close> prop is the hook's here.
\<close>

definition ex_virtual_props :: "session list \<Rightarrow> backend \<Rightarrow> VirtualScheduleGridProps" where
  "ex_virtual_props ss env =
     \<lparr>v_hasConflict = VirtualTimetable_hasConflict ex_salles ex_fusions ss,
      v_updateSession = updateSession (ex_holding ss) env,
      v_isLoading = False,
      v_roomsScope = Official\<rparr>"





section \<open>Characterisation of the conflict check\<close>

lemma list_ex_member_inter:
  "list_ex (\<lambda>g. g \<in> set ys) xs \<longleftrightarrow> set ys \<inter> set xs \<noteq> {}"
  by (auto simp: list_ex_iff)

lemma find_not_None_iff: "List.find P xs \<noteq> None \<longleftrightarrow> (\<exists>x \<in> set xs. P x)"
  by (auto simp: find_None_iff)

lemma find_Some_holds: "List.find P xs = Some x \<Longrightarrow> x \<in> set xs \<and> P x"
  by (auto simp: find_Some_iff)

text \<open>The copy of the check in \<open>VirtualTimetable.tsx\<close> is the hook's check with both options given.\<close>

lemma VirtualTimetable_hasConflict_eq:
  "VirtualTimetable_hasConflict salles onlineFusions officialSessions session targetCell =
   hasConflict \<lparr>opt_expandGroupIds = Some (expandGroupIds (fusionMap onlineFusions)),
                opt_isVirtualRoom = Some (isVirtualRoom salles)\<rparr>
     officialSessions session targetCell"
  by (simp add: VirtualTimetable_hasConflict_def hasConflict_def expand_of_def isVirtual_of_def Let_def)

text \<open>
  C3. \<open>hasConflict\<close> returns a session exactly when some session other than the candidate
  (different id) lies on the target day and slot and shares with the candidate a physical
  room (equal rooms, neither virtual), the trainer, or a group of the fusion expansions;
  the session returned is such a session. Since the groups are compared after expansion,
  two literal \<open>groupe\<close> strings that differ still conflict when they share a member.
\<close>

theorem hasConflict_iff:
  "(hasConflict opts ss c t \<noteq> None \<longleftrightarrow>
     (\<exists>s \<in> set ss. id_s s \<noteq> id_s c \<and> jour s = day t \<and> creneau s = slot t \<and>
        ((salle s = salle c \<and> \<not> isVirtual_of opts (salle c) \<and> \<not> isVirtual_of opts (salle s))
         \<or> formateur s = formateur c
         \<or> set (expand_of opts (groupe s)) \<inter> set (expand_of opts (groupe c)) \<noteq> {})))
   \<and> (\<forall>r. hasConflict opts ss c t = Some r \<longrightarrow>
        r \<in> set ss \<and> id_s r \<noteq> id_s c \<and> jour r = day t \<and> creneau r = slot t \<and>
        ((salle r = salle c \<and> \<not> isVirtual_of opts (salle c) \<and> \<not> isVirtual_of opts (salle r))
         \<or> formateur r = formateur c
         \<or> set (expand_of opts (groupe r)) \<inter> set (expand_of opts (groupe c)) \<noteq> {}))"
proof -
  have A: "hasConflict opts ss c t \<noteq> None \<longleftrightarrow>
     (\<exists>s \<in> set ss. id_s s \<noteq> id_s c \<and> jour s = day t \<and> creneau s = slot t \<and>
        ((salle s = salle c \<and> \<not> isVirtual_of opts (salle c) \<and> \<not> isVirtual_of opts (salle s))
         \<or> formateur s = formateur c
         \<or> set (expand_of opts (groupe s)) \<inter> set (expand_of opts (groupe c)) \<noteq> {}))"
    unfolding hasConflict_def Let_def find_not_None_iff list_ex_member_inter
    by (rule bex_cong) auto
  have B: "r \<in> set ss \<and> id_s r \<noteq> id_s c \<and> jour r = day t \<and> creneau r = slot t \<and>
        ((salle r = salle c \<and> \<not> isVirtual_of opts (salle c) \<and> \<not> isVirtual_of opts (salle r))
         \<or> formateur r = formateur c
         \<or> set (expand_of opts (groupe r)) \<inter> set (expand_of opts (groupe c)) \<noteq> {})"
    if a: "hasConflict opts ss c t = Some r" for r
    using a unfolding hasConflict_def Let_def list_ex_member_inter
    by (auto dest!: find_Some_holds split: if_splits)
  from A B show ?thesis by blast
qed

text \<open>
  The candidate \<open>S1\<close> of group \<open>DEV101\<close> against an online session of the fusion
  \<open>DEV101_DEV102\<close>, with another trainer and another room, on the target cell.
\<close>

theorem hasConflict_iff_witness:
  "hasConflict
     \<lparr>opt_expandGroupIds = Some (expandGroupIds (fusionMap
          [\<lparr>fusion_id = ''DEV101_DEV102'', groupes = [''DEV101'', ''DEV102'']\<rparr>])),
      opt_isVirtualRoom = None\<rparr>
     [\<lparr>id_s = ''S2'', formateur = ''T2'', groupe = ''DEV101_DEV102'', module = ''M2'',
       jour = ''mardi'', creneau = 2, salle = ''TEAMS''\<rparr>]
     \<lparr>id_s = ''S1'', formateur = ''T1'', groupe = ''DEV101'', module = ''M1'',
       jour = ''lundi'', creneau = 1, salle = ''R1''\<rparr>
     \<lparr>day = ''mardi'', slot = 2\<rparr> \<noteq> None"
proof -
  let ?opts = "\<lparr>opt_expandGroupIds = Some (expandGroupIds (fusionMap
          [\<lparr>fusion_id = ''DEV101_DEV102'', groupes = [''DEV101'', ''DEV102'']\<rparr>])),
      opt_isVirtualRoom = None\<rparr>"
  let ?s2 = "\<lparr>id_s = ''S2'', formateur = ''T2'', groupe = ''DEV101_DEV102'', module = ''M2'',
       jour = ''mardi'', creneau = 2, salle = ''TEAMS''\<rparr>"
  let ?s1 = "\<lparr>id_s = ''S1'', formateur = ''T1'', groupe = ''DEV101'', module = ''M1'',
       jour = ''lundi'', creneau = 1, salle = ''R1''\<rparr>"
  let ?t = "\<lparr>day = ''mardi'', slot = 2\<rparr>"
  have "\<exists>s \<in> set [?s2]. id_s s \<noteq> id_s ?s1 \<and> jour s = day ?t \<and> creneau s = slot ?t \<and>
        ((salle s = salle ?s1 \<and> \<not> isVirtual_of ?opts (salle ?s1) \<and> \<not> isVirtual_of ?opts (salle s))
         \<or> formateur s = formateur ?s1
         \<or> set (expand_of ?opts (groupe s)) \<inter> set (expand_of ?opts (groupe ?s1)) \<noteq> {})"
    by (simp add: expand_of_def expandGroupIds_def fusionMap_def)
  with hasConflict_iff [of ?opts "[?s2]" ?s1 ?t] show ?thesis by blast
qed

section \<open>Frame property of the optimistic move\<close>

text \<open>
  C9. \<open>applyMoveLocal\<close> returns a list of the same length and order. At every position, a
  session whose id is \<open>sessionId\<close> has its day, slot and room replaced by the given values
  and keeps its id, trainer, group, module and every further field; a session with another
  id is returned as it is. When no session has that id, the result is the input list.
\<close>

theorem applyMoveLocal_frame:
  "length (applyMoveLocal ss sid j c r) = length ss
   \<and> (\<forall>i < length ss.
        (id_s (ss ! i) = sid \<longrightarrow>
           jour (applyMoveLocal ss sid j c r ! i) = j
         \<and> creneau (applyMoveLocal ss sid j c r ! i) = c
         \<and> salle (applyMoveLocal ss sid j c r ! i) = r
         \<and> id_s (applyMoveLocal ss sid j c r ! i) = id_s (ss ! i)
         \<and> formateur (applyMoveLocal ss sid j c r ! i) = formateur (ss ! i)
         \<and> groupe (applyMoveLocal ss sid j c r ! i) = groupe (ss ! i)
         \<and> module (applyMoveLocal ss sid j c r ! i) = module (ss ! i)
         \<and> session.more (applyMoveLocal ss sid j c r ! i)
             = session.more (ss ! i))
      \<and> (id_s (ss ! i) \<noteq> sid \<longrightarrow>
           applyMoveLocal ss sid j c r ! i = ss ! i))
   \<and> ((\<forall>s \<in> set ss. id_s s \<noteq> sid) \<longrightarrow>
        applyMoveLocal ss sid j c r = ss)"
proof (intro conjI allI impI)
  show "length (applyMoveLocal ss sid j c r) = length ss"
    by (simp add: applyMoveLocal_def)
next
  assume "\<forall>s \<in> set ss. id_s s \<noteq> sid"
  then show "applyMoveLocal ss sid j c r = ss"
    unfolding applyMoveLocal_def by (induction ss) simp_all
qed (simp_all add: applyMoveLocal_def)

theorem applyMoveLocal_frame_witness:
  "length (applyMoveLocal [ex_S1, ex_S2] ''S1'' ''jeudi'' 3 ''R5'') = 2
   \<and> jour (applyMoveLocal [ex_S1, ex_S2] ''S1'' ''jeudi'' 3 ''R5'' ! 0) = ''jeudi''
   \<and> creneau (applyMoveLocal [ex_S1, ex_S2] ''S1'' ''jeudi'' 3 ''R5'' ! 0) = 3
   \<and> salle (applyMoveLocal [ex_S1, ex_S2] ''S1'' ''jeudi'' 3 ''R5'' ! 0) = ''R5''
   \<and> formateur (applyMoveLocal [ex_S1, ex_S2] ''S1'' ''jeudi'' 3 ''R5'' ! 0) = ''T1''
   \<and> applyMoveLocal [ex_S1, ex_S2] ''S1'' ''jeudi'' 3 ''R5'' ! 1 = ex_S2
   \<and> applyMoveLocal [ex_S2] ''S1'' ''jeudi'' 3 ''R5'' = [ex_S2]"
proof -
  note two = applyMoveLocal_frame [of "[ex_S1, ex_S2]" "''S1''" "''jeudi''" 3 "''R5''"]
  have len: "length (applyMoveLocal [ex_S1, ex_S2] ''S1'' ''jeudi'' 3 ''R5'') = 2"
    using two by simp
  have i0: "id_s ([ex_S1, ex_S2] ! 0) = ''S1''" by (simp add: ex_S1_def)
  have i1: "id_s ([ex_S1, ex_S2] ! 1) \<noteq> ''S1''" by (simp add: ex_S2_def)
  from two have at: "\<forall>i < length [ex_S1, ex_S2].
      (id_s ([ex_S1, ex_S2] ! i) = ''S1'' \<longrightarrow>
         jour (applyMoveLocal [ex_S1, ex_S2] ''S1'' ''jeudi'' 3 ''R5'' ! i) = ''jeudi''
       \<and> creneau (applyMoveLocal [ex_S1, ex_S2] ''S1'' ''jeudi'' 3 ''R5'' ! i) = 3
       \<and> salle (applyMoveLocal [ex_S1, ex_S2] ''S1'' ''jeudi'' 3 ''R5'' ! i) = ''R5''
       \<and> formateur (applyMoveLocal [ex_S1, ex_S2] ''S1'' ''jeudi'' 3 ''R5'' ! i)
           = formateur ([ex_S1, ex_S2] ! i))
    \<and> (id_s ([ex_S1, ex_S2] ! i) \<noteq> ''S1'' \<longrightarrow>
         applyMoveLocal [ex_S1, ex_S2] ''S1'' ''jeudi'' 3 ''R5'' ! i = [ex_S1, ex_S2] ! i)"
    by blast
  from at i0 have moved:
    "jour (applyMoveLocal [ex_S1, ex_S2] ''S1'' ''jeudi'' 3 ''R5'' ! 0) = ''jeudi''
     \<and> creneau (applyMoveLocal [ex_S1, ex_S2] ''S1'' ''jeudi'' 3 ''R5'' ! 0) = 3
     \<and> salle (applyMoveLocal [ex_S1, ex_S2] ''S1'' ''jeudi'' 3 ''R5'' ! 0) = ''R5''
     \<and> formateur (applyMoveLocal [ex_S1, ex_S2] ''S1'' ''jeudi'' 3 ''R5'' ! 0) = ''T1''"
    by (simp add: ex_S1_def)
  from at i1 have kept: "applyMoveLocal [ex_S1, ex_S2] ''S1'' ''jeudi'' 3 ''R5'' ! 1 = ex_S2"
    by simp
  have a: "\<forall>s \<in> set [ex_S2]. id_s s \<noteq> ''S1''" by (simp add: ex_S2_def)
  from applyMoveLocal_frame [of "[ex_S2]" "''S1''" "''jeudi''" 3 "''R5''"] a
  have same: "applyMoveLocal [ex_S2] ''S1'' ''jeudi'' 3 ''R5'' = [ex_S2]" by blast
  from len moved kept same show ?thesis by blast
qed

section \<open>Reconciliation after a rejected command\<close>

lemma run_Nil [simp]: "run [] st = st"
  by (simp add: run_def)

lemma run_Cons [simp]: "run (e # evs) st = run evs (apply_event e st)"
  by (simp add: run_def)

lemma run_append [simp]: "run (xs @ ys) st = run ys (run xs st)"
  by (simp add: run_def)

lemma sessions_run_fetchData:
  "sessions (run (fetchData env) st) =
     (case timetable_reply env of
        TimetableResolved v fetched \<Rightarrow> nullish fetched []
      | TimetableRejected x \<Rightarrow> sessions st)"
  by (simp add: fetchData_def split: TimetableReply.splits option.splits)

lemma version_run_fetchData:
  "version (run (fetchData env) st) =
     (case timetable_reply env of
        TimetableResolved v fetched \<Rightarrow> nullish v (version st)
      | TimetableRejected x \<Rightarrow> version st)"
  by (simp add: fetchData_def nullish_def split: TimetableReply.splits option.splits)

lemma commands_fetchData: "filter is_command (fetchData env) = []"
  by (simp add: fetchData_def split: TimetableReply.splits option.splits)

lemma GetTimetable_in_fetchData: "GetTimetable \<in> set (fetchData env)"
  by (simp add: fetchData_def)

text \<open>
  C1, as the claim states it, fails: after a rejection with code \<open>VERSION_MISMATCH\<close> the
  hook re-fetches, and the list it holds in the end is the fetched one, not the snapshot.
\<close>

theorem rollback_any_code_counterexample:
  "command_reply (ex_rejecting ''VERSION_MISMATCH'') = Rejected (ex_error ''VERSION_MISMATCH'')
   \<and> sessions (run (snd (moveSessionDnD ex_state (ex_rejecting ''VERSION_MISMATCH'') ex_move))
                 ex_state) \<noteq> sessions ex_state"
  by (simp add: moveSessionDnD_def Let_def ex_rejecting_def ex_error_def ex_body_def ex_state_def
        fetchData_def nullish_def)

text \<open>
  C1, amended. When the command of a move or of a delete is rejected, the hook sets the
  session list back to the snapshot taken before the optimistic mutation. That list is the
  final one, unless the rejection carries the code \<open>VERSION_MISMATCH\<close> (for a move: in a
  body with \<open>ok === false\<close>) and the re-fetch that follows succeeds: then the final list is
  the fetched one. In every case exactly one command is sent: there is no retry.
\<close>

theorem rejected_rollback:
  assumes "command_reply env = Rejected e"
  shows "sessions (run (snd (moveSessionDnD st env args)) st) =
           (if (case err_body e of
                  Some b \<Rightarrow> body_ok b = Some False \<and> body_code b = Some ''VERSION_MISMATCH''
                | None \<Rightarrow> False)
            then (case timetable_reply env of
                    TimetableResolved v fetched \<Rightarrow> nullish fetched []
                  | TimetableRejected x \<Rightarrow> sessions st)
            else sessions st)
       \<and> sessions (run (snd (deleteSession st env sid)) st) =
           (if (case err_body e of
                  Some b \<Rightarrow> body_code b = Some ''VERSION_MISMATCH''
                | None \<Rightarrow> False)
            then (case timetable_reply env of
                    TimetableResolved v fetched \<Rightarrow> nullish fetched []
                  | TimetableRejected x \<Rightarrow> sessions st)
            else sessions st)
       \<and> length (filter is_command (snd (moveSessionDnD st env args))) = 1
       \<and> length (filter is_command (snd (deleteSession st env sid))) = 1"
proof -
  have m: "sessions (run (snd (moveSessionDnD st env args)) st) =
           (if (case err_body e of
                  Some b \<Rightarrow> body_ok b = Some False \<and> body_code b = Some ''VERSION_MISMATCH''
                | None \<Rightarrow> False)
            then (case timetable_reply env of
                    TimetableResolved v fetched \<Rightarrow> nullish fetched []
                  | TimetableRejected x \<Rightarrow> sessions st)
            else sessions st)"
    using assms
    by (simp add: moveSessionDnD_def Let_def sessions_run_fetchData split: option.splits)
  have d: "sessions (run (snd (deleteSession st env sid)) st) =
           (if (case err_body e of
                  Some b \<Rightarrow> body_code b = Some ''VERSION_MISMATCH''
                | None \<Rightarrow> False)
            then (case timetable_reply env of
                    TimetableResolved v fetched \<Rightarrow> nullish fetched []
                  | TimetableRejected x \<Rightarrow> sessions st)
            else sessions st)"
    using assms
    by (simp add: deleteSession_def Let_def sessions_run_fetchData split: option.splits)
  have cm: "length (filter is_command (snd (moveSessionDnD st env args))) = 1"
    using assms
    by (simp add: moveSessionDnD_def Let_def commands_fetchData split: option.splits)
  have cd: "length (filter is_command (snd (deleteSession st env sid))) = 1"
    using assms
    by (simp add: deleteSession_def Let_def commands_fetchData split: option.splits)
  from m d cm cd show ?thesis by blast
qed

theorem rejected_rollback_witness:
  "sessions (run (snd (moveSessionDnD ex_state (ex_rejecting ''CONFLICT'') ex_move)) ex_state)
     = [ex_S1, ex_S2]
   \<and> sessions (run (snd (deleteSession ex_state (ex_rejecting ''VERSION_MISMATCH'') ''S1''))
                 ex_state) = [ex_S2]
   \<and> length (filter is_command
        (snd (moveSessionDnD ex_state (ex_rejecting ''CONFLICT'') ex_move))) = 1"
proof -
  have c: "command_reply (ex_rejecting ''CONFLICT'') = Rejected (ex_error ''CONFLICT'')"
    by (simp add: ex_rejecting_def)
  have v: "command_reply (ex_rejecting ''VERSION_MISMATCH'')
             = Rejected (ex_error ''VERSION_MISMATCH'')"
    by (simp add: ex_rejecting_def)
  from rejected_rollback [OF c, of ex_state ex_move "''S1''"]
  have "sessions (run (snd (moveSessionDnD ex_state (ex_rejecting ''CONFLICT'') ex_move))
                   ex_state) = [ex_S1, ex_S2]
      \<and> length (filter is_command
           (snd (moveSessionDnD ex_state (ex_rejecting ''CONFLICT'') ex_move))) = 1"
    by (simp add: ex_error_def ex_body_def ex_state_def)
  moreover from rejected_rollback [OF v, of ex_state ex_move "''S1''"]
  have "sessions (run (snd (deleteSession ex_state (ex_rejecting ''VERSION_MISMATCH'') ''S1''))
                   ex_state) = [ex_S2]"
    by (simp add: ex_error_def ex_body_def ex_rejecting_def nullish_def)
  ultimately show ?thesis by blast
qed

text \<open>
  C2. When the dispatch of a move or of a delete fails with a body \<open>{ok: false, code:
  "VERSION_MISMATCH"}\<close>, the hook sets the sessions back to the snapshot and then runs
  \<open>fetchData\<close>, which issues \<open>GET /api/timetable\<close>. When the failure carries any other code,
  or no body at all, the hook sets the sessions back and does nothing more. In every case the
  list held after the third effect, the rollback, is the snapshot.
\<close>

theorem version_mismatch_refetch:
  assumes "command_reply env = Rejected e"
  shows "(\<forall>b. err_body e = Some b \<and> body_ok b = Some False
              \<and> body_code b = Some ''VERSION_MISMATCH'' \<longrightarrow>
            snd (moveSessionDnD st env args) =
              [SetSessions (applyMoveLocal (sessions st) (sessionId args) (toJour args)
                              (toCreneau args) (toSalle args)),
               SendTimetableCommand \<lparr>commandId = uuid env, expectedVersion = version st,
                                      command = MOVE_SESSION args\<rparr> Official,
               SetSessions (sessions st)] @ fetchData env
          \<and> snd (deleteSession st env sid) =
              [SetSessions (applyDeleteLocal (sessions st) sid),
               SendTimetableCommand \<lparr>commandId = uuid env, expectedVersion = version st,
                                      command = DELETE_SESSION sid\<rparr> Official,
               SetSessions (sessions st)] @ fetchData env)
       \<and> GetTimetable \<in> set (fetchData env)
       \<and> sessions (run (take 3 (snd (moveSessionDnD st env args))) st) = sessions st
       \<and> sessions (run (take 3 (snd (deleteSession st env sid))) st) = sessions st
       \<and> ((\<forall>b. err_body e = Some b \<longrightarrow> body_code b \<noteq> Some ''VERSION_MISMATCH'') \<longrightarrow>
            snd (moveSessionDnD st env args) =
              [SetSessions (applyMoveLocal (sessions st) (sessionId args) (toJour args)
                              (toCreneau args) (toSalle args)),
               SendTimetableCommand \<lparr>commandId = uuid env, expectedVersion = version st,
                                      command = MOVE_SESSION args\<rparr> Official,
               SetSessions (sessions st)]
          \<and> snd (deleteSession st env sid) =
              [SetSessions (applyDeleteLocal (sessions st) sid),
               SendTimetableCommand \<lparr>commandId = uuid env, expectedVersion = version st,
                                      command = DELETE_SESSION sid\<rparr> Official,
               SetSessions (sessions st)])"
proof (intro conjI allI impI)
  show "GetTimetable \<in> set (fetchData env)" by (rule GetTimetable_in_fetchData)
next
  show "sessions (run (take 3 (snd (moveSessionDnD st env args))) st) = sessions st"
    using assms by (simp add: moveSessionDnD_def Let_def split: option.splits)
next
  show "sessions (run (take 3 (snd (deleteSession st env sid))) st) = sessions st"
    using assms by (simp add: deleteSession_def Let_def split: option.splits)
qed (use assms in \<open>auto simp: moveSessionDnD_def deleteSession_def Let_def split: option.splits\<close>)

theorem version_mismatch_refetch_witness:
  "GetTimetable \<in> set (snd (moveSessionDnD ex_state (ex_rejecting ''VERSION_MISMATCH'') ex_move))
   \<and> GetTimetable \<in> set (snd (deleteSession ex_state (ex_rejecting ''VERSION_MISMATCH'') ''S1''))
   \<and> GetTimetable \<notin> set (snd (moveSessionDnD ex_state (ex_rejecting ''CONFLICT'') ex_move))
   \<and> GetTimetable \<notin> set (snd (deleteSession ex_state (ex_rejecting ''CONFLICT'') ''S1''))"
proof -
  have c: "command_reply (ex_rejecting ''CONFLICT'') = Rejected (ex_error ''CONFLICT'')"
    by (simp add: ex_rejecting_def)
  have v: "command_reply (ex_rejecting ''VERSION_MISMATCH'')
             = Rejected (ex_error ''VERSION_MISMATCH'')"
    by (simp add: ex_rejecting_def)
  from version_mismatch_refetch [OF v, of ex_state ex_move "''S1''"]
  have "GetTimetable \<in> set (snd (moveSessionDnD ex_state (ex_rejecting ''VERSION_MISMATCH'') ex_move))
      \<and> GetTimetable \<in> set (snd (deleteSession ex_state (ex_rejecting ''VERSION_MISMATCH'') ''S1''))"
    by (simp add: ex_error_def ex_body_def)
  moreover from version_mismatch_refetch [OF c, of ex_state ex_move "''S1''"]
  have "GetTimetable \<notin> set (snd (moveSessionDnD ex_state (ex_rejecting ''CONFLICT'') ex_move))
      \<and> GetTimetable \<notin> set (snd (deleteSession ex_state (ex_rejecting ''CONFLICT'') ''S1''))"
    by (simp add: ex_error_def ex_body_def)
  ultimately show ?thesis by blast
qed

section \<open>The version the hook stores\<close>

text \<open>
  C6, as the claim states it, fails: a rejection whose body carries \<open>version: 7\<close> and
  \<open>serverVersion: 7\<close> leaves the stored version at 3.
\<close>

theorem version_after_rejection_counterexample:
  "command_reply (ex_rejecting ''CONFLICT'') = Rejected (ex_error ''CONFLICT'')
   \<and> err_body (ex_error ''CONFLICT'') = Some (ex_body ''CONFLICT'')
   \<and> body_version (ex_body ''CONFLICT'') = Some 7
   \<and> body_serverVersion (ex_body ''CONFLICT'') = Some 7
   \<and> version ex_state = 3
   \<and> version (run (snd (moveSessionDnD ex_state (ex_rejecting ''CONFLICT'') ex_move)) ex_state) = 3
   \<and> version (run (snd (deleteSession ex_state (ex_rejecting ''CONFLICT'') ''S1'')) ex_state) = 3"
  by (simp add: moveSessionDnD_def deleteSession_def Let_def ex_rejecting_def ex_error_def
        ex_body_def ex_state_def)

text \<open>
  C6, amended. On success the stored version becomes the \<open>version\<close> of the response. After
  a rejection the stored version is left as it was, whatever \<open>version\<close> or \<open>serverVersion\<close>
  the body carries; only after a \<open>VERSION_MISMATCH\<close> (for a move: in a body with
  \<open>ok === false\<close>) does the re-fetch store the version of the fetched timetable, when the
  fetch succeeds and the timetable has one.
\<close>

theorem version_adoption:
  "(command_reply env = Resolved res \<longrightarrow>
      version (run (snd (moveSessionDnD st env args)) st) = res_version res
    \<and> version (run (snd (deleteSession st env sid)) st) = res_version res)
   \<and> (command_reply env = Rejected e \<longrightarrow>
      version (run (snd (moveSessionDnD st env args)) st) =
        (if (case err_body e of
               Some b \<Rightarrow> body_ok b = Some False \<and> body_code b = Some ''VERSION_MISMATCH''
             | None \<Rightarrow> False)
         then (case timetable_reply env of
                 TimetableResolved v fetched \<Rightarrow> nullish v (version st)
               | TimetableRejected x \<Rightarrow> version st)
         else version st)
    \<and> version (run (snd (deleteSession st env sid)) st) =
        (if (case err_body e of
               Some b \<Rightarrow> body_code b = Some ''VERSION_MISMATCH''
             | None \<Rightarrow> False)
         then (case timetable_reply env of
                 TimetableResolved v fetched \<Rightarrow> nullish v (version st)
               | TimetableRejected x \<Rightarrow> version st)
         else version st))"
  by (simp add: moveSessionDnD_def deleteSession_def Let_def version_run_fetchData
           split: option.splits)

theorem version_adoption_witness:
  "version (run (snd (moveSessionDnD ex_state (ex_accepting [ex_S2]) ex_move)) ex_state) = 4
   \<and> version (run (snd (moveSessionDnD ex_state (ex_rejecting ''VERSION_MISMATCH'') ex_move))
                ex_state) = 7
   \<and> version (run (snd (deleteSession ex_state (ex_rejecting ''CONFLICT'') ''S1'')) ex_state) = 3"
proof -
  have "version (run (snd (moveSessionDnD ex_state (ex_accepting [ex_S2]) ex_move)) ex_state) = 4"
    using version_adoption [of "ex_accepting [ex_S2]" _ ex_state ex_move "''S1''"]
    by (simp add: ex_accepting_def)
  moreover
  have "version (run (snd (moveSessionDnD ex_state (ex_rejecting ''VERSION_MISMATCH'') ex_move))
                  ex_state) = 7"
    using version_adoption [of "ex_rejecting ''VERSION_MISMATCH''" _ ex_state ex_move "''S1''"
            "ex_error ''VERSION_MISMATCH''"]
    by (simp add: ex_rejecting_def ex_error_def ex_body_def nullish_def)
  moreover
  have "version (run (snd (deleteSession ex_state (ex_rejecting ''CONFLICT'') ''S1'')) ex_state) = 3"
    using version_adoption [of "ex_rejecting ''CONFLICT''" _ ex_state ex_move "''S1''"
            "ex_error ''CONFLICT''"]
    by (simp add: ex_rejecting_def ex_error_def ex_body_def ex_state_def)
  ultimately show ?thesis by blast
qed

section \<open>The drop handlers\<close>

lemma expandGroupIds_nonempty: "expandGroupIds fm g \<noteq> []"
  by (simp add: expandGroupIds_def split: option.splits)

lemma rooms_fetchData: "filter is_rooms_query (fetchData env) = []"
  by (simp add: fetchData_def split: TimetableReply.splits option.splits)

lemma prompts_fetchData: "filter is_room_prompt (fetchData env) = []"
  by (simp add: fetchData_def split: TimetableReply.splits option.splits)

lemma moveSessionDnD_no_rooms:
  "filter is_rooms_query (snd (moveSessionDnD st env args)) = []
   \<and> filter is_room_prompt (snd (moveSessionDnD st env args)) = []"
  by (simp add: moveSessionDnD_def Let_def rooms_fetchData prompts_fetchData
           split: CommandReply.splits option.splits)

lemma moveSessionDnD_sends:
  "SendTimetableCommand \<lparr>commandId = uuid env, expectedVersion = version st,
                          command = MOVE_SESSION args\<rparr> Official
     \<in> set (snd (moveSessionDnD st env args))"
  by (simp add: moveSessionDnD_def Let_def split: CommandReply.splits option.splits)

text \<open>An update that gives day, slot and room is the move command.\<close>

lemma updateSession_move:
  "updateSession st env sid (move_updates toDay toSlot room) =
     (fst (moveSessionDnD st env \<lparr>sessionId = sid, toJour = toDay, toCreneau = toSlot,
                                   toSalle = room\<rparr>) = ActionOk,
      snd (moveSessionDnD st env \<lparr>sessionId = sid, toJour = toDay, toCreneau = toSlot,
                                   toSalle = room\<rparr>))"
  by (simp add: updateSession_def move_updates_def split: prod.splits)

text \<open>
  C10. In the main grid a drop onto the cell the session is on does nothing: the handler
  returns with no effect, whatever the conflict check, the backend and the other props are.
\<close>

theorem same_cell_drop_noop:
  assumes "jour session = toDay" and "creneau session = toSlot"
  shows "ScheduleGrid_handleDrop props env session toDay toSlot = []"
  using assms by (simp add: ScheduleGrid_handleDrop_def)

theorem same_cell_drop_noop_witness:
  "ScheduleGrid_handleDrop
     (Index_props ex_salles ex_fusions False (ex_holding [ex_S1, ex_S3]) (ex_accepting [ex_S3]))
     (ex_accepting [ex_S3]) ex_S1 ''lundi'' 1 = []"
proof -
  have j: "jour ex_S1 = ''lundi''" by (simp add: ex_S1_def)
  have c: "creneau ex_S1 = 1" by (simp add: ex_S1_def)
  from same_cell_drop_noop [OF j c] show ?thesis .
qed

text \<open>
  What the precheck of both grids does: when the session that \<open>hasConflict\<close> returned has
  the trainer of the dragged session, or literally the same \<open>groupe\<close>, the handler stops
  with one toast and nothing else.
\<close>

lemma ScheduleGrid_precheck_abort:
  assumes "\<not> p_isLoading props" and "\<not> p_readOnly props"
    and "jour session \<noteq> toDay \<or> creneau session \<noteq> toSlot"
    and "p_hasConflict props session \<lparr>day = toDay, slot = toSlot\<rparr> = Some c"
    and "formateur c = formateur session \<or> groupe c = groupe session"
  shows "ScheduleGrid_handleDrop props env session toDay toSlot =
           [Toast (if formateur c = formateur session then TeacherBusy else GroupBusy)]"
  using assms by (auto simp: ScheduleGrid_handleDrop_def Let_def)

lemma VirtualScheduleGrid_precheck_abort:
  assumes "\<not> v_isLoading props" and "\<not> isOnlineSession session"
    and "v_hasConflict props session \<lparr>day = toDay, slot = toSlot\<rparr> = Some c"
    and "formateur c = formateur session \<or> groupe c = groupe session"
  shows "VirtualScheduleGrid_handleDrop props env session toDay toSlot =
           [Toast (if formateur c = formateur session then TeacherBusy else GroupBusy)]"
  using assms by (auto simp: VirtualScheduleGrid_handleDrop_def Let_def)

text \<open>
  Room resolution, once past the early returns and the precheck. With no free room both
  grids stop on a toast after the one query. The virtual grid moves directly exactly when
  the room of the session is free and the conflict check returned nothing, and otherwise
  opens the selector with the rooms the backend returned; the main grid opens it, with
  those rooms, when the room of the session is not among them.
\<close>

lemma ScheduleGrid_no_room:
  assumes "\<not> p_isLoading props" and "\<not> p_readOnly props"
    and "jour session \<noteq> toDay \<or> creneau session \<noteq> toSlot"
    and "\<not> isOnlineSession session"
    and "\<forall>c. p_hasConflict props session \<lparr>day = toDay, slot = toSlot\<rparr> = Some c \<longrightarrow>
            formateur c \<noteq> formateur session \<and> groupe c \<noteq> groupe session"
    and "rooms_reply env = RoomsResolved api" and "nullish api [] = []"
  shows "ScheduleGrid_handleDrop props env session toDay toSlot =
           [GetAvailableRooms toDay toSlot Official, Toast NoRoomAvailable]"
  using assms by (auto simp: ScheduleGrid_handleDrop_def Let_def)

lemma ScheduleGrid_room_prompt:
  assumes "\<not> p_isLoading props" and "\<not> p_readOnly props"
    and "jour session \<noteq> toDay \<or> creneau session \<noteq> toSlot"
    and "\<not> isOnlineSession session"
    and "\<forall>c. p_hasConflict props session \<lparr>day = toDay, slot = toSlot\<rparr> = Some c \<longrightarrow>
            formateur c \<noteq> formateur session \<and> groupe c \<noteq> groupe session"
    and "rooms_reply env = RoomsResolved (Some freeRooms)" and "freeRooms \<noteq> []"
    and "salle session \<notin> set freeRooms"
  shows "ScheduleGrid_handleDrop props env session toDay toSlot =
           [GetAvailableRooms toDay toSlot Official,
            OpenRoomSelector session \<lparr>day = toDay, slot = toSlot\<rparr> freeRooms
              (p_hasConflict props session \<lparr>day = toDay, slot = toSlot\<rparr>),
            Toast RoomOccupied]"
  using assms by (auto simp: ScheduleGrid_handleDrop_def Let_def nullish_def)

lemma VirtualScheduleGrid_room_resolution:
  assumes "\<not> v_isLoading props" and "\<not> isOnlineSession session"
    and "\<forall>c. v_hasConflict props session \<lparr>day = toDay, slot = toSlot\<rparr> = Some c \<longrightarrow>
            formateur c \<noteq> formateur session \<and> groupe c \<noteq> groupe session"
    and "rooms_reply env = RoomsResolved (Some freeRooms)"
  shows "VirtualScheduleGrid_handleDrop props env session toDay toSlot =
           GetAvailableRooms toDay toSlot (v_roomsScope props) #
           (if freeRooms = [] then [Toast NoRoomAvailable]
            else if salle session \<in> set freeRooms
                    \<and> v_hasConflict props session \<lparr>day = toDay, slot = toSlot\<rparr> = None
            then snd (v_updateSession props (id_s session)
                        (move_updates toDay toSlot (salle session)))
                 @ (if fst (v_updateSession props (id_s session)
                              (move_updates toDay toSlot (salle session)))
                    then [] else [Toast BackendRefused])
            else [OpenRoomSelector session \<lparr>day = toDay, slot = toSlot\<rparr> freeRooms
                    (v_hasConflict props session \<lparr>day = toDay, slot = toSlot\<rparr>)])"
  using assms
  by (auto simp: VirtualScheduleGrid_handleDrop_def Let_def nullish_def split: prod.splits)

text \<open>
  C4. The dragged session is of group \<open>DEV101\<close>; on the target cell the hook holds an
  online session of the fusion \<open>DEV101_DEV102\<close> with another trainer and another room. The
  conflict check returns that session, on the shared group alone. The claim says the move
  is aborted before any network call. The main grid compares the literal \<open>groupe\<close> strings,
  finds them different, asks the backend for the free rooms and sends the move command;
  the virtual grid asks for the free rooms and opens the room selector.
\<close>

theorem fused_group_conflict_not_aborted:
  "p_hasConflict (Index_props ex_salles ex_fusions False (ex_holding [ex_D1, ex_F])
                    (ex_accepting [ex_F]))
     ex_D1 \<lparr>day = ''mardi'', slot = 2\<rparr> = Some ex_F
   \<and> formateur ex_F \<noteq> formateur ex_D1
   \<and> salle ex_F \<noteq> salle ex_D1
   \<and> groupe ex_F \<noteq> groupe ex_D1
   \<and> ''DEV101'' \<in> set (expandGroupIds (fusionMap ex_fusions) (groupe ex_F))
   \<and> ''DEV101'' \<in> set (expandGroupIds (fusionMap ex_fusions) (groupe ex_D1))
   \<and> ScheduleGrid_handleDrop
       (Index_props ex_salles ex_fusions False (ex_holding [ex_D1, ex_F]) (ex_accepting [ex_F]))
       (ex_accepting [ex_F]) ex_D1 ''mardi'' 2
     = [GetAvailableRooms ''mardi'' 2 Official,
        SetSessions [ex_D1\<lparr>jour := ''mardi'', creneau := 2\<rparr>, ex_F],
        SendTimetableCommand
          \<lparr>commandId = ''c-2'', expectedVersion = 3,
           command = MOVE_SESSION \<lparr>sessionId = ''S1'', toJour = ''mardi'', toCreneau = 2,
                                   toSalle = ''R1''\<rparr>\<rparr> Official,
        SetSessions [ex_F], SetVersion 4,
        Toast (SessionMoved ex_D1 ''mardi'' 2 (Some ''R1''))]
   \<and> VirtualScheduleGrid_handleDrop (ex_virtual_props [ex_D1, ex_F] (ex_accepting [ex_F]))
       (ex_accepting [ex_F]) ex_D1 ''mardi'' 2
     = [GetAvailableRooms ''mardi'' 2 Official,
        OpenRoomSelector ex_D1 \<lparr>day = ''mardi'', slot = 2\<rparr> [''R1'', ''R2''] (Some ex_F)]"
  by code_simp

text \<open>
  C5. The dragged session \<open>S1\<close> is in room \<open>R1\<close>; on the target cell the hook holds a
  session of another trainer and another group in \<open>R1\<close>, so the conflict check returns a
  room conflict, while the backend reports \<open>R1\<close> and \<open>R2\<close> free. The claim says a prompt
  listing \<open>R1\<close> and \<open>R2\<close> is shown. The virtual grid, which tests \<open>!conflict\<close>, shows it; the
  main grid tests only that the room is in the list and sends the move command for \<open>R1\<close>.
\<close>

theorem room_conflict_direct_move:
  "p_hasConflict (Index_props ex_salles ex_fusions False (ex_holding [ex_S1, ex_S3])
                    (ex_accepting [ex_S3]))
     ex_S1 \<lparr>day = ''mardi'', slot = 2\<rparr> = Some ex_S3
   \<and> salle ex_S3 = salle ex_S1
   \<and> formateur ex_S3 \<noteq> formateur ex_S1
   \<and> groupe ex_S3 \<noteq> groupe ex_S1
   \<and> rooms_reply (ex_accepting [ex_S3]) = RoomsResolved (Some [''R1'', ''R2''])
   \<and> ScheduleGrid_handleDrop
       (Index_props ex_salles ex_fusions False (ex_holding [ex_S1, ex_S3]) (ex_accepting [ex_S3]))
       (ex_accepting [ex_S3]) ex_S1 ''mardi'' 2
     = [GetAvailableRooms ''mardi'' 2 Official,
        SetSessions [ex_S1\<lparr>jour := ''mardi'', creneau := 2\<rparr>, ex_S3],
        SendTimetableCommand
          \<lparr>commandId = ''c-2'', expectedVersion = 3,
           command = MOVE_SESSION \<lparr>sessionId = ''S1'', toJour = ''mardi'', toCreneau = 2,
                                   toSalle = ''R1''\<rparr>\<rparr> Official,
        SetSessions [ex_S3], SetVersion 4,
        Toast (SessionMoved ex_S1 ''mardi'' 2 (Some ''R1''))]
   \<and> VirtualScheduleGrid_handleDrop (ex_virtual_props [ex_S1, ex_S3] (ex_accepting [ex_S3]))
       (ex_accepting [ex_S3]) ex_S1 ''mardi'' 2
     = [GetAvailableRooms ''mardi'' 2 Official,
        OpenRoomSelector ex_S1 \<lparr>day = ''mardi'', slot = 2\<rparr> [''R1'', ''R2''] (Some ex_S3)]"
  by code_simp

text \<open>
  C7, as the claim states it, fails in the virtual grid: the drop of an online session
  onto another cell, with no conflict there, returns at once and sends no command.
\<close>

theorem online_drop_virtual_grid_counterexample:
  "isOnlineSession ex_T
   \<and> jour ex_T \<noteq> ''mardi''
   \<and> v_hasConflict (ex_virtual_props [ex_T, ex_S2] (ex_accepting [ex_S2]))
        ex_T \<lparr>day = ''mardi'', slot = 3\<rparr> = None
   \<and> filter is_command
        (VirtualScheduleGrid_handleDrop (ex_virtual_props [ex_T, ex_S2] (ex_accepting [ex_S2]))
           (ex_accepting [ex_S2]) ex_T ''mardi'' 3) = []"
  by code_simp

text \<open>
  C7, amended. For a session whose room is \<open>TEAMS\<close> up to letter case: in the virtual grid
  a drop does nothing at all. In the main grid (not loading, not read-only), a drop onto
  another cell is stopped by the precheck when the conflicting session has the same trainer
  or the same \<open>groupe\<close>; when there is no conflicting session, or one that shares neither
  the trainer nor a group of the fusion expansions, the handler goes straight to the move
  command of the hook with the session's own room, then toasts the outcome. That command
  is sent, and the run holds no room-availability query and no room prompt.
\<close>

theorem online_drop:
  assumes "isOnlineSession session"
  shows "VirtualScheduleGrid_handleDrop vprops env session toDay toSlot = []
   \<and> (\<not> loading st \<and> \<not> readOnly \<and> (jour session \<noteq> toDay \<or> creneau session \<noteq> toSlot) \<longrightarrow>
        (case hasConflict (Index_options salles fus) (sessions st) session
                \<lparr>day = toDay, slot = toSlot\<rparr> of
           None \<Rightarrow>
             ScheduleGrid_handleDrop (Index_props salles fus readOnly st env) env session toDay toSlot
               = snd (moveSessionDnD st env
                        \<lparr>sessionId = id_s session, toJour = toDay, toCreneau = toSlot,
                         toSalle = salle session\<rparr>)
                 @ [Toast (if fst (moveSessionDnD st env
                                     \<lparr>sessionId = id_s session, toJour = toDay,
                                      toCreneau = toSlot, toSalle = salle session\<rparr>) = ActionOk
                           then SessionMoved session toDay toSlot None else MoveRefused)]
         | Some c \<Rightarrow>
             (formateur c = formateur session \<longrightarrow>
                ScheduleGrid_handleDrop (Index_props salles fus readOnly st env) env session
                  toDay toSlot = [Toast TeacherBusy])
           \<and> (formateur c \<noteq> formateur session \<and> groupe c = groupe session \<longrightarrow>
                ScheduleGrid_handleDrop (Index_props salles fus readOnly st env) env session
                  toDay toSlot = [Toast GroupBusy])
           \<and> (formateur c \<noteq> formateur session
                \<and> set (expandGroupIds (fusionMap fus) (groupe c))
                    \<inter> set (expandGroupIds (fusionMap fus) (groupe session)) = {} \<longrightarrow>
                ScheduleGrid_handleDrop (Index_props salles fus readOnly st env) env session
                  toDay toSlot
                = snd (moveSessionDnD st env
                        \<lparr>sessionId = id_s session, toJour = toDay, toCreneau = toSlot,
                         toSalle = salle session\<rparr>)
                 @ [Toast (if fst (moveSessionDnD st env
                                     \<lparr>sessionId = id_s session, toJour = toDay,
                                      toCreneau = toSlot, toSalle = salle session\<rparr>) = ActionOk
                           then SessionMoved session toDay toSlot None else MoveRefused)])))
   \<and> SendTimetableCommand
        \<lparr>commandId = uuid env, expectedVersion = version st,
         command = MOVE_SESSION \<lparr>sessionId = id_s session, toJour = toDay, toCreneau = toSlot,
                                 toSalle = salle session\<rparr>\<rparr> Official
       \<in> set (snd (moveSessionDnD st env
                     \<lparr>sessionId = id_s session, toJour = toDay, toCreneau = toSlot,
                      toSalle = salle session\<rparr>))
   \<and> filter is_rooms_query (snd (moveSessionDnD st env
                     \<lparr>sessionId = id_s session, toJour = toDay, toCreneau = toSlot,
                      toSalle = salle session\<rparr>)) = []
   \<and> filter is_room_prompt (snd (moveSessionDnD st env
                     \<lparr>sessionId = id_s session, toJour = toDay, toCreneau = toSlot,
                      toSalle = salle session\<rparr>)) = []"
proof -
  let ?H = "ScheduleGrid_handleDrop (Index_props salles fus readOnly st env) env session toDay toSlot"
  let ?m = "moveSessionDnD st env
              \<lparr>sessionId = id_s session, toJour = toDay, toCreneau = toSlot,
               toSalle = salle session\<rparr>"
  let ?move = "snd ?m @ [Toast (if fst ?m = ActionOk
                               then SessionMoved session toDay toSlot None else MoveRefused)]"
  let ?c = "hasConflict (Index_options salles fus) (sessions st) session
              \<lparr>day = toDay, slot = toSlot\<rparr>"
  have v: "VirtualScheduleGrid_handleDrop vprops env session toDay toSlot = []"
    using assms by (simp add: VirtualScheduleGrid_handleDrop_def)
  have none: "?H = ?move"
    if "\<not> loading st" "\<not> readOnly" "jour session \<noteq> toDay \<or> creneau session \<noteq> toSlot"
       "?c = None"
    using that assms
    by (auto simp: ScheduleGrid_handleDrop_def Index_props_def Let_def updateSession_move)
  have teacher: "?H = [Toast TeacherBusy]"
    if "\<not> loading st" "\<not> readOnly" "jour session \<noteq> toDay \<or> creneau session \<noteq> toSlot"
       "?c = Some c" "formateur c = formateur session" for c
    using that ScheduleGrid_precheck_abort
                 [of "Index_props salles fus readOnly st env" session toDay toSlot c env]
    by (simp add: Index_props_def)
  have grp: "?H = [Toast GroupBusy]"
    if "\<not> loading st" "\<not> readOnly" "jour session \<noteq> toDay \<or> creneau session \<noteq> toSlot"
       "?c = Some c" "formateur c \<noteq> formateur session" "groupe c = groupe session" for c
    using that ScheduleGrid_precheck_abort
                 [of "Index_props salles fus readOnly st env" session toDay toSlot c env]
    by (simp add: Index_props_def)
  have room: "?H = ?move"
    if "\<not> loading st" "\<not> readOnly" "jour session \<noteq> toDay \<or> creneau session \<noteq> toSlot"
       "?c = Some c" "formateur c \<noteq> formateur session"
       "set (expandGroupIds (fusionMap fus) (groupe c))
          \<inter> set (expandGroupIds (fusionMap fus) (groupe session)) = {}" for c
  proof -
    have "groupe c \<noteq> groupe session"
      using that(6) expandGroupIds_nonempty [of "fusionMap fus" "groupe session"] by auto
    with that assms show ?thesis
      by (auto simp: ScheduleGrid_handleDrop_def Index_props_def Let_def updateSession_move)
  qed
  show ?thesis
    using v none teacher grp room moveSessionDnD_sends [of env st]
      moveSessionDnD_no_rooms [of st env]
    by (auto split: option.splits)
qed

theorem online_drop_witness:
  "VirtualScheduleGrid_handleDrop (ex_virtual_props [ex_T, ex_S2] (ex_accepting [ex_S2]))
     (ex_accepting [ex_S2]) ex_T ''mardi'' 3 = []
   \<and> ScheduleGrid_handleDrop
       (Index_props ex_salles ex_fusions False (ex_holding [ex_T, ex_S2]) (ex_accepting [ex_S2]))
       (ex_accepting [ex_S2]) ex_T ''mardi'' 3
     = [SetSessions [ex_T\<lparr>jour := ''mardi'', creneau := 3\<rparr>, ex_S2],
        SendTimetableCommand
          \<lparr>commandId = ''c-2'', expectedVersion = 3,
           command = MOVE_SESSION \<lparr>sessionId = ''S5'', toJour = ''mardi'', toCreneau = 3,
                                   toSalle = ''Teams''\<rparr>\<rparr> Official,
        SetSessions [ex_S2], SetVersion 4,
        Toast (SessionMoved ex_T ''mardi'' 3 None)]"
proof -
  have on: "isOnlineSession ex_T" by code_simp
  have no: "hasConflict (Index_options ex_salles ex_fusions)
              (sessions (ex_holding [ex_T, ex_S2])) ex_T \<lparr>day = ''mardi'', slot = 3\<rparr> = None"
    by code_simp
  have pre: "\<not> loading (ex_holding [ex_T, ex_S2]) \<and> \<not> False
             \<and> (jour ex_T \<noteq> ''mardi'' \<or> creneau ex_T \<noteq> 3)"
    by (simp add: ex_holding_def ex_T_def)
  have mv: "moveSessionDnD (ex_holding [ex_T, ex_S2]) (ex_accepting [ex_S2])
              \<lparr>sessionId = id_s ex_T, toJour = ''mardi'', toCreneau = 3, toSalle = salle ex_T\<rparr>
            = (ActionOk,
               [SetSessions [ex_T\<lparr>jour := ''mardi'', creneau := 3\<rparr>, ex_S2],
                SendTimetableCommand
                  \<lparr>commandId = ''c-2'', expectedVersion = 3,
                   command = MOVE_SESSION \<lparr>sessionId = ''S5'', toJour = ''mardi'',
                                           toCreneau = 3, toSalle = ''Teams''\<rparr>\<rparr> Official,
                SetSessions [ex_S2], SetVersion 4])"
    by code_simp
  from online_drop [OF on, of "ex_virtual_props [ex_T, ex_S2] (ex_accepting [ex_S2])"
         "ex_accepting [ex_S2]" "''mardi''" 3 "ex_holding [ex_T, ex_S2]" False
         ex_salles ex_fusions]
       no pre mv
  show ?thesis by simp
qed

section \<open>The virtual view\<close>


lemma byId_index_None:
  "byId_index sid xs = None \<longleftrightarrow> (\<forall>x \<in> set xs. id_s x \<noteq> sid)"
  by (induction xs) (auto split: option.splits)

lemma length_tag [simp]: "length (tag state rid sid base) = length base"
  by (simp add: tag_def split: option.splits)






end
